theory Spec2Isabelle
  imports Complex_Main "HOL-Library.Word"
begin

section \<open>Purchase approval workflow of mapping-erp (modulo financiero)\<close>

text \<open>
  A shallow embedding of \<^verbatim>\<open>financiero.states.js\<close>, \<^verbatim>\<open>financiero.schema.js\<close>,
  \<^verbatim>\<open>financiero.repository.js\<close>, \<^verbatim>\<open>financiero.service.js\<close> and of
  \<^verbatim>\<open>withTransaction\<close> (shared/database/pool.js).

  Amounts are JavaScript numbers. The model is polymorphic in the number type \<open>'n\<close>:
  the state machine only compares amounts (\<open>>=\<close>), the service only adds and multiplies
  them, so no law of arithmetic is assumed beyond what each theorem states in its sort.

  Strings. A role, an action and the text of an error are only ever compared with, or
  built from, ASCII literals: they are \<open>string\<close>s, one \<open>char\<close> for each character. A
  comment is trimmed and measured by the validation schema, so it is kept as JavaScript
  has it, as the list of its UTF-16 code units.

  Identifiers are whole numbers from 0 on; what a route makes of a path parameter that
  is no whole number lies outside the model.
\<close>

subsection \<open>JavaScript strings\<close>

type_synonym cadena = "16 word list"


subsection \<open>financiero.states.js\<close>

text \<open>\<^verbatim>\<open>UMBRALES_APROBACION\<close>: read from the environment at start-up, hence a parameter.\<close>

record 'n umbrales =
  JEFE_AREA :: 'n
  GERENCIA :: 'n

text \<open>The values the source falls back to when the environment sets none.\<close>

definition UMBRALES_por_defecto :: "'n::numeral umbrales" where
  "UMBRALES_por_defecto = \<lparr>JEFE_AREA = 5000000, GERENCIA = 20000000\<rparr>"

text \<open>\<^verbatim>\<open>ESTADOS_COMPRA\<close>, a frozen enumeration; the table's CHECK admits exactly these.\<close>

datatype estado =
    BORRADOR
  | PENDIENTE_JEFE
  | PENDIENTE_GERENCIA
  | PENDIENTE_TESORERIA
  | APROBADA
  | RECHAZADA
  | ANULADA
  | EN_PROCESO
  | COMPLETADA


text \<open>
  \<^verbatim>\<open>calcularFlujoAprobacion\<close>: the array starts with \<open>PENDIENTE_JEFE\<close>, each \<^verbatim>\<open>push\<close>
  appends at the end, in the order of the source.
\<close>

definition calcularFlujoAprobacion :: "'n::linorder umbrales \<Rightarrow> 'n \<Rightarrow> estado list" where
  "calcularFlujoAprobacion u monto =
     (let flujo = [PENDIENTE_JEFE];
          flujo = (if monto \<ge> JEFE_AREA u then flujo @ [PENDIENTE_GERENCIA] else flujo);
          flujo = (if monto \<ge> GERENCIA u then flujo @ [PENDIENTE_TESORERIA] else flujo)
      in flujo @ [APROBADA])"

text \<open>\<^verbatim>\<open>Array.prototype.indexOf\<close>: the first position of the element, or \<open>-1\<close>.\<close>

fun indexOf :: "'a list \<Rightarrow> 'a \<Rightarrow> int" where
  "indexOf [] x = -1"
| "indexOf (y # ys) x =
     (if y = x then 0 else (let i = indexOf ys x in if i < 0 then -1 else i + 1))"

text \<open>
  Reading \<^verbatim>\<open>arr[i]\<close> in JavaScript: \<^verbatim>\<open>undefined\<close> (here \<open>None\<close>) outside
  \<open>0 .. length - 1\<close>.
\<close>

definition elemento :: "'a list \<Rightarrow> int \<Rightarrow> 'a option" where
  "elemento xs i = (if 0 \<le> i \<and> i < int (length xs) then Some (xs ! nat i) else None)"

text \<open>
  \<^verbatim>\<open>siguienteEstado\<close>: \<^verbatim>\<open>flujo[indexActual + 1] || null\<close>. Every stage name is a
  non-empty string, hence truthy, so \<^verbatim>\<open>|| null\<close> only turns \<^verbatim>\<open>undefined\<close> into
  \<^verbatim>\<open>null\<close>: both are \<open>None\<close>.
\<close>

definition siguienteEstado :: "'n::linorder umbrales \<Rightarrow> estado \<Rightarrow> 'n \<Rightarrow> estado option" where
  "siguienteEstado u estadoActual monto =
     (let flujo = calcularFlujoAprobacion u monto;
          indexActual = indexOf flujo estadoActual
      in elemento flujo (indexActual + 1))"

text \<open>\<^verbatim>\<open>ROLES_POR_ESTADO\<close>: an object with three keys; any other key reads \<^verbatim>\<open>undefined\<close>.\<close>

fun ROLES_POR_ESTADO :: "estado \<Rightarrow> string list option" where
  "ROLES_POR_ESTADO PENDIENTE_JEFE = Some [''jefe_area'', ''gerente'', ''admin'']"
| "ROLES_POR_ESTADO PENDIENTE_GERENCIA = Some [''gerente'', ''admin'']"
| "ROLES_POR_ESTADO PENDIENTE_TESORERIA = Some [''tesorero'', ''admin'']"
| "ROLES_POR_ESTADO _ = None"

text \<open>\<^verbatim>\<open>puedeAprobar\<close>: \<^verbatim>\<open>(ROLES_POR_ESTADO[estadoActual] || []).includes(rol)\<close>.\<close>

definition puedeAprobar :: "string \<Rightarrow> estado \<Rightarrow> bool" where
  "puedeAprobar rol estadoActual =
     (let rolesPermitidos = (case ROLES_POR_ESTADO estadoActual of Some rs \<Rightarrow> rs | None \<Rightarrow> [])
      in rol \<in> set rolesPermitidos)"

subsection \<open>shared/errors/AppError.js\<close>

text \<open>
  The three operational errors the service throws, with their messages, and the error
  \<^verbatim>\<open>client.query\<close> throws when the database refuses a statement (it carries the
  name of the violated constraint, or the SQLSTATE code where no constraint is named).
  The last one is not an \<^verbatim>\<open>AppError\<close>.
\<close>

datatype error =
    NotFoundError string
  | ValidationError string
  | ForbiddenError string
  | DatabaseError string

subsection \<open>The tables (DDL Financiero)\<close>


record datos_comunes =
  titulo :: string
  justificacion :: string
  proyecto_id :: "nat option"
  area_id :: nat
  urgente :: bool
  fecha_requerida :: "string option"

record 'n solicitud_compra = datos_comunes +
  estado :: estado
  monto_total :: 'n
  solicitante_id :: nat
  updated_by :: "nat option"
  deleted_at :: "nat option"

record 'n item =
  descripcion :: string
  cantidad :: 'n
  precio_unitario :: 'n

record 'n solicitud_compra_item = "'n item" +
  item_solicitud_id :: nat
  subtotal :: 'n

record aprobacion_compra =
  solicitud_id :: nat
  nivel_aprobacion :: nat
  accion :: string
  comentario :: "cadena option"
  aprobador_id :: nat
  estado_resultante :: estado

record 'n db =
  solicitudes_compra :: "nat \<rightharpoonup> 'n solicitud_compra"
  solicitud_compra_items :: "'n solicitud_compra_item list"
  aprobaciones_compra :: "aprobacion_compra list"

subsection \<open>shared/database/pool.js\<close>

text \<open>
  \<^verbatim>\<open>withTransaction\<close>: BEGIN, the callback, COMMIT; when the callback throws, ROLLBACK
  and the error is thrown again. The callback works on the state the transaction began
  with; a rollback leaves that state. Errors are those of the statements in the
  callback; a failure of the connection itself is not modelled.
\<close>

definition withTransaction ::
  "'n db \<Rightarrow> ('n db \<Rightarrow> error + ('a \<times> 'n db)) \<Rightarrow> (error + 'a) \<times> 'n db" where
  "withTransaction db callback =
     (case callback db of
        Inr (result, db') \<Rightarrow> (Inr result, db')
      | Inl e \<Rightarrow> (Inl e, db))"

subsection \<open>financiero.repository.js\<close>

text \<open>The body of a request as \<^verbatim>\<open>crearSolicitudSchema\<close> lets it through.\<close>

record 'n datos = datos_comunes +
  items :: "'n item list"

text \<open>
  \<^verbatim>\<open>repo.crearSolicitud\<close>: one INSERT into \<^verbatim>\<open>solicitudes_compra\<close>, in state
  \<^verbatim>\<open>'borrador'\<close>, \<^verbatim>\<open>RETURNING *\<close>. What PostgreSQL makes of that statement is not in the
  repository and is a parameter here: the id it draws from the sequence (a sequence is
  not rolled back, so it is no part of the state of this model), the coercion of each
  value to its column (for \<^verbatim>\<open>monto_total\<close> the rounding to two decimals and the range of
  \<^verbatim>\<open>NUMERIC(16,2)\<close>), NOT NULL, \<^verbatim>\<open>CHECK (monto_total >= 0)\<close> and the foreign keys. For
  the database and the values it is handed, the parameter either refuses with an error
  or gives the id and the row as stored.
\<close>

type_synonym 'n insert_solicitud =
  "'n db \<Rightarrow> 'n datos \<Rightarrow> nat \<Rightarrow> 'n \<Rightarrow> error + (nat \<times> 'n solicitud_compra)"

definition repo_crearSolicitud ::
  "'n insert_solicitud \<Rightarrow> 'n db \<Rightarrow> 'n datos \<Rightarrow> nat \<Rightarrow> 'n
     \<Rightarrow> error + ((nat \<times> 'n solicitud_compra) \<times> 'n db)" where
  "repo_crearSolicitud pg client d solicitanteId montoTotal =
     (case pg client d solicitanteId montoTotal of
        Inl e \<Rightarrow> Inl e
      | Inr (nuevo_id, fila) \<Rightarrow>
          Inr ((nuevo_id, fila),
               client\<lparr>solicitudes_compra := (solicitudes_compra client)(nuevo_id \<mapsto> fila)\<rparr>))"

text \<open>
  \<^verbatim>\<open>repo.crearItemsSolicitud\<close>: one INSERT into \<^verbatim>\<open>solicitud_compra_items\<close> that names
  the column \<^verbatim>\<open>subtotal\<close> and supplies \<^verbatim>\<open>it.cantidad * it.precio_unitario\<close> for it. The
  DDL declares that column
  \<^verbatim>\<open>GENERATED ALWAYS AS (cantidad * precio_unitario) STORED\<close>, and PostgreSQL refuses a
  value for a generated column when it analyses the statement, before it looks at any
  row or constraint (SQLSTATE 428C9). With no item the VALUES list is empty, which is a
  syntax error (42601). So the statement never succeeds.
\<close>

definition repo_crearItemsSolicitud ::
  "'n db \<Rightarrow> nat \<Rightarrow> 'n item list \<Rightarrow> error + ('n solicitud_compra_item list \<times> 'n db)" where
  "repo_crearItemsSolicitud client solicitudId its =
     (if its = [] then Inl (DatabaseError ''42601'') else Inl (DatabaseError ''428C9''))"




subsection \<open>financiero.service.js\<close>

text \<open>
  Every service function takes the database and returns its result (or the error it
  throws) with the database it leaves.
\<close>

text \<open>
  \<^verbatim>\<open>crearSolicitud\<close>: \<^verbatim>\<open>reduce\<close> runs left to right from \<open>0\<close>; the request and its items
  are inserted in one transaction; the result is the row with its item rows.
\<close>

definition crearSolicitud ::
  "'n::{zero,plus,times} insert_solicitud \<Rightarrow> 'n db \<Rightarrow> 'n datos \<Rightarrow> nat
     \<Rightarrow> (error + (nat \<times> 'n solicitud_compra \<times> 'n solicitud_compra_item list)) \<times> 'n db" where
  "crearSolicitud pg db d solicitanteId =
     (let montoTotal = foldl (\<lambda>acc it. acc + cantidad it * precio_unitario it) 0 (items d)
      in withTransaction db (\<lambda>client.
           case repo_crearSolicitud pg client d solicitanteId montoTotal of
             Inl e \<Rightarrow> Inl e
           | Inr ((ident, solicitud), c1) \<Rightarrow>
               (case repo_crearItemsSolicitud c1 ident (items d) of
                  Inl e \<Rightarrow> Inl e
                | Inr (filas, c2) \<Rightarrow> Inr ((ident, solicitud, filas), c2))))"





record resultado =
  solicitudId :: nat
  estadoAnterior :: estado
  estadoNuevo :: estado







subsection \<open>financiero.schema.js and the route \<^verbatim>\<open>PATCH /:id/aprobacion\<close>\<close>








subsection \<open>Notions of the specification, and example data\<close>




definition db_vacia :: "rat db" where
  "db_vacia =
     \<lparr>solicitudes_compra = Map.empty, solicitud_compra_items = [],
      aprobaciones_compra = []\<rparr>"

text \<open>
  A body that \<^verbatim>\<open>crearSolicitudSchema\<close> lets through, and a database that takes the first
  INSERT of \<^verbatim>\<open>crearSolicitud\<close> as it stands and hands out the id 1 (the total of the body,
  4,000,000, needs no rounding).
\<close>

definition datos_ejemplo :: "rat datos" where
  "datos_ejemplo =
     \<lparr>titulo = ''Repuestos de planta'', justificacion = ''Mantenimiento anual'',
      proyecto_id = None, area_id = 1, urgente = False, fecha_requerida = None,
      items = [\<lparr>descripcion = ''Rodamiento'', cantidad = 4, precio_unitario = 250000\<rparr>,
               \<lparr>descripcion = ''Aceite'', cantidad = 5 / 2, precio_unitario = 1200000\<rparr>]\<rparr>"

definition insert_aceptado :: "rat insert_solicitud" where
  "insert_aceptado client d solicitanteId montoTotal =
     Inr (1, \<lparr>titulo = titulo d, justificacion = justificacion d,
              proyecto_id = proyecto_id d, area_id = area_id d, urgente = urgente d,
              fecha_requerida = fecha_requerida d,
              estado = BORRADOR, monto_total = montoTotal,
              solicitante_id = solicitanteId, updated_by = None, deleted_at = None\<rparr>)"

section \<open>Theorems\<close>

subsection \<open>Evaluation and auxiliary facts\<close>














subsection \<open>The threshold policy\<close>

lemma calcularFlujoAprobacion_bajo:
  "monto < JEFE_AREA u \<Longrightarrow> monto < GERENCIA u \<Longrightarrow>
   calcularFlujoAprobacion u monto = [PENDIENTE_JEFE, APROBADA]"
  by (simp add: calcularFlujoAprobacion_def not_le [symmetric])

lemma calcularFlujoAprobacion_medio:
  "JEFE_AREA u \<le> monto \<Longrightarrow> monto < GERENCIA u \<Longrightarrow>
   calcularFlujoAprobacion u monto = [PENDIENTE_JEFE, PENDIENTE_GERENCIA, APROBADA]"
  by (simp add: calcularFlujoAprobacion_def not_le [symmetric])

lemma calcularFlujoAprobacion_alto:
  "JEFE_AREA u \<le> monto \<Longrightarrow> GERENCIA u \<le> monto \<Longrightarrow>
   calcularFlujoAprobacion u monto =
     [PENDIENTE_JEFE, PENDIENTE_GERENCIA, PENDIENTE_TESORERIA, APROBADA]"
  by (simp add: calcularFlujoAprobacion_def)

lemma calcularFlujoAprobacion_salto:
  "monto < JEFE_AREA u \<Longrightarrow> GERENCIA u \<le> monto \<Longrightarrow>
   calcularFlujoAprobacion u monto = [PENDIENTE_JEFE, PENDIENTE_TESORERIA, APROBADA]"
  by (simp add: calcularFlujoAprobacion_def not_le [symmetric])

text \<open>
  C1. With the thresholds ordered as the policy's contract has them
  (\<open>JEFE_AREA \<le> GERENCIA\<close>), the path of an amount \<open>a\<close> is
  \<open>[PENDIENTE_JEFE, APROBADA]\<close> below \<open>JEFE_AREA\<close>,
  \<open>[PENDIENTE_JEFE, PENDIENTE_GERENCIA, APROBADA]\<close> from \<open>JEFE_AREA\<close> up to but not
  including \<open>GERENCIA\<close>, and
  \<open>[PENDIENTE_JEFE, PENDIENTE_GERENCIA, PENDIENTE_TESORERIA, APROBADA]\<close> from \<open>GERENCIA\<close>
  on; it is never empty and always ends with \<open>APROBADA\<close>. Nothing is asked of the sign of
  \<open>a\<close>, so the non-negative amounts of the claim are covered.
\<close>

theorem calcularFlujoAprobacion_tramos:
  fixes u :: "'n::linorder umbrales" and a :: 'n
  assumes "JEFE_AREA u \<le> GERENCIA u"
  shows "(a < JEFE_AREA u \<longrightarrow>
            calcularFlujoAprobacion u a = [PENDIENTE_JEFE, APROBADA])
       \<and> (JEFE_AREA u \<le> a \<and> a < GERENCIA u \<longrightarrow>
            calcularFlujoAprobacion u a = [PENDIENTE_JEFE, PENDIENTE_GERENCIA, APROBADA])
       \<and> (GERENCIA u \<le> a \<longrightarrow>
            calcularFlujoAprobacion u a =
              [PENDIENTE_JEFE, PENDIENTE_GERENCIA, PENDIENTE_TESORERIA, APROBADA])
       \<and> calcularFlujoAprobacion u a \<noteq> []
       \<and> last (calcularFlujoAprobacion u a) = APROBADA"
proof -
  have bajo: "a < JEFE_AREA u \<longrightarrow> calcularFlujoAprobacion u a = [PENDIENTE_JEFE, APROBADA]"
    using assms by (auto intro: calcularFlujoAprobacion_bajo)
  have medio: "JEFE_AREA u \<le> a \<and> a < GERENCIA u \<longrightarrow>
      calcularFlujoAprobacion u a = [PENDIENTE_JEFE, PENDIENTE_GERENCIA, APROBADA]"
    by (auto intro: calcularFlujoAprobacion_medio)
  have alto: "GERENCIA u \<le> a \<longrightarrow> calcularFlujoAprobacion u a =
      [PENDIENTE_JEFE, PENDIENTE_GERENCIA, PENDIENTE_TESORERIA, APROBADA]"
    using assms by (auto intro: calcularFlujoAprobacion_alto)
  have fin: "calcularFlujoAprobacion u a \<noteq> [] \<and> last (calcularFlujoAprobacion u a) = APROBADA"
    by (simp add: calcularFlujoAprobacion_def Let_def)
  from bajo medio alto fin show ?thesis by blast
qed

theorem calcularFlujoAprobacion_tramos_witness:
  "JEFE_AREA (UMBRALES_por_defecto :: rat umbrales) \<le> GERENCIA UMBRALES_por_defecto
   \<and> calcularFlujoAprobacion UMBRALES_por_defecto (4000000 :: rat) = [PENDIENTE_JEFE, APROBADA]
   \<and> calcularFlujoAprobacion UMBRALES_por_defecto (5000000 :: rat) =
       [PENDIENTE_JEFE, PENDIENTE_GERENCIA, APROBADA]
   \<and> calcularFlujoAprobacion UMBRALES_por_defecto (20000000 :: rat) =
       [PENDIENTE_JEFE, PENDIENTE_GERENCIA, PENDIENTE_TESORERIA, APROBADA]"
proof -
  have h: "JEFE_AREA (UMBRALES_por_defecto :: rat umbrales) \<le> GERENCIA UMBRALES_por_defecto"
    by (simp add: UMBRALES_por_defecto_def)
  show ?thesis
    using h
      calcularFlujoAprobacion_tramos [OF h, of 4000000]
      calcularFlujoAprobacion_tramos [OF h, of 5000000]
      calcularFlujoAprobacion_tramos [OF h, of 20000000]
    by (simp add: UMBRALES_por_defecto_def)
qed

subsection \<open>The next stage\<close>

text \<open>
  For a stage on the path of the amount the function does what its comment says: it
  gives the entry that follows, and nothing after the last entry.
\<close>

lemma siguienteEstado_en_el_flujo:
  "calcularFlujoAprobacion u m = xs @ e # y # ys \<Longrightarrow> siguienteEstado u e m = Some y"
  by (auto simp: siguienteEstado_def calcularFlujoAprobacion_def elemento_def Let_def
      append_eq_Cons_conv Cons_eq_append_conv split: if_splits)

lemma siguienteEstado_APROBADA: "siguienteEstado u APROBADA m = None"
  by (simp add: siguienteEstado_def calcularFlujoAprobacion_def elemento_def Let_def)

text \<open>
  For a stage that is not on the path, \<^verbatim>\<open>indexOf\<close> gives \<open>-1\<close> and the function reads
  position \<open>0\<close>: the result is the first stage of the path, never \<^verbatim>\<open>null\<close>.
\<close>

lemma siguienteEstado_fuera_del_flujo:
  "e \<notin> set (calcularFlujoAprobacion u m) \<Longrightarrow> siguienteEstado u e m = Some PENDIENTE_JEFE"
  by (auto simp: siguienteEstado_def calcularFlujoAprobacion_def elemento_def Let_def
      split: if_splits)


text \<open>
  C2. The three examples the claim gives of a stage that does not occur in the path, at
  the default thresholds: a draft and a rejected request of amount 0, and
  \<open>PENDIENTE_TESORERIA\<close> at an amount of 1,000,000 whose path is
  \<open>[PENDIENTE_JEFE, APROBADA]\<close>. In each the code answers \<open>PENDIENTE_JEFE\<close> where the
  claim has none.
\<close>

theorem siguienteEstado_fuera_del_flujo_ejemplos:
  "siguienteEstado (UMBRALES_por_defecto :: rat umbrales) BORRADOR 0 = Some PENDIENTE_JEFE
 \<and> siguienteEstado (UMBRALES_por_defecto :: rat umbrales) RECHAZADA 0 = Some PENDIENTE_JEFE
 \<and> siguienteEstado (UMBRALES_por_defecto :: rat umbrales) PENDIENTE_TESORERIA 1000000
      = Some PENDIENTE_JEFE"
  by (simp add: siguienteEstado_def calcularFlujoAprobacion_def UMBRALES_por_defecto_def
      elemento_def)

subsection \<open>Who may act\<close>

text \<open>
  C6. \<^verbatim>\<open>puedeAprobar\<close> is true exactly for: \<open>PENDIENTE_JEFE\<close> with one of jefe_area,
  gerente, admin; \<open>PENDIENTE_GERENCIA\<close> with gerente or admin; \<open>PENDIENTE_TESORERIA\<close> with
  tesorero or admin. At each of the six other stages it is false for every role. It is a
  function of its two arguments only: it reads and writes no state.
\<close>

theorem puedeAprobar_tabla:
  "puedeAprobar rol e =
     (e = PENDIENTE_JEFE \<and> (rol = ''jefe_area'' \<or> rol = ''gerente'' \<or> rol = ''admin'')
    \<or> e = PENDIENTE_GERENCIA \<and> (rol = ''gerente'' \<or> rol = ''admin'')
    \<or> e = PENDIENTE_TESORERIA \<and> (rol = ''tesorero'' \<or> rol = ''admin''))"
  by (cases e) (auto simp: puedeAprobar_def)

subsection \<open>The two operations, case by case\<close>








subsection \<open>Approving at the treasury stage\<close>




subsection \<open>Submitting\<close>




subsection \<open>Rejecting\<close>









subsection \<open>What the service itself checks\<close>




subsection \<open>Two calls on one request\<close>




subsection \<open>Stage and ledger change together\<close>



subsection \<open>The total of a request\<close>

text \<open>
  Whatever the first INSERT does, \<^verbatim>\<open>crearSolicitud\<close> fails and leaves the database as it
  was: either the first INSERT fails, or the INSERT of the items does, and the
  transaction is rolled back.
\<close>

lemma crearSolicitud_nunca_crea: "\<exists>e. crearSolicitud pg db d uid = (Inl e, db)"
  by (auto simp: crearSolicitud_def withTransaction_def repo_crearSolicitud_def
      repo_crearItemsSolicitud_def Let_def split: sum.splits prod.splits)

text \<open>
  C7 says that a request is created with \<open>monto_total\<close> equal to the sum of
  \<open>cantidad * precio_unitario\<close> over its items. The code computes that sum, and the row
  of the request is inserted with it; but the INSERT of the items then supplies a value
  for \<open>subtotal\<close>, which the table declares \<^verbatim>\<open>GENERATED ALWAYS\<close>, so the database refuses
  the statement and the transaction is rolled back. For a body of two items, 4 at
  250000 and 2.5 at 1200000, on an empty database that accepts the row of the request:
  the call fails with the database's error 428C9 and no request is stored.
\<close>

theorem crearSolicitud_rechazada_por_subtotal:
  "crearSolicitud insert_aceptado db_vacia datos_ejemplo 7
     = (Inl (DatabaseError ''428C9''), db_vacia)"
  by (simp add: crearSolicitud_def withTransaction_def repo_crearSolicitud_def
      repo_crearItemsSolicitud_def insert_aceptado_def datos_ejemplo_def Let_def)

end
